theory Spec2Isabelle
  imports Complex_Main
begin

section \<open>Platform values used by both components\<close>

text \<open>
  The two components are React function components. Their pure parts (the derived values,
  the callbacks' bodies) are functions here; their state cells, refs and timers are fields
  of a record that an event takes to the next record; what they do to the outside (requests,
  toasts, navigation) is returned as a value.

  JavaScript numbers that the components compute with are counts, offsets and page
  numbers; they are modelled as unbounded integers, and \<open>NaN\<close> (the only non-integer
  that \<open>parseInt\<close> can produce) as \<open>None\<close>. The model therefore leaves out the loss of
  precision of integers beyond \<open>2^53\<close>. Strings are \<open>char list\<close>.
\<close>

text \<open>\<open>x || d\<close> on a nullable string: \<open>null\<close> and the empty string are falsy.\<close>

definition orElse :: "string option \<Rightarrow> string \<Rightarrow> string" where
  "orElse x d = (case x of None \<Rightarrow> d | Some s \<Rightarrow> if s = [] then d else s)"

text \<open>
  \<open>Number.prototype.toString\<close> on an integer: decimal digits, \<open>-\<close> for a negative one
  (the exponent notation of numbers from \<open>10^21\<close> on is left out).
\<close>

definition digitChar :: "nat \<Rightarrow> char" where
  "digitChar d = ''0123456789'' ! d"

function natToString :: "nat \<Rightarrow> string" where
  "natToString n = (if n < 10 then [digitChar n] else natToString (n div 10) @ [digitChar (n mod 10)])"
  by pat_completeness auto
termination
  by (relation "measure (\<lambda>n. n)") auto

declare natToString.simps [simp del]

definition toString :: "int \<Rightarrow> string" where
  "toString n = (if n < 0 then CHR ''-'' # natToString (nat (- n)) else natToString (nat n))"

text \<open>
  \<open>parseInt(s)\<close> with no radix: leading white space is skipped (the ASCII white space
  here), then an optional sign, then an optional \<open>0x\<close>/\<open>0X\<close> (radix 16, else radix 10),
  then the longest prefix of digits of the radix is read; no digit at all gives \<open>NaN\<close>.
\<close>

definition isWhiteSpace :: "char \<Rightarrow> bool" where
  "isWhiteSpace c = (of_char c \<in> {9, 10, 11, 12, 13, 32 :: nat})"

definition digitValue :: "char \<Rightarrow> nat option" where
  "digitValue c =
     (let k = (of_char c :: nat) in
      if 48 \<le> k \<and> k \<le> 57 then Some (k - 48)
      else if 97 \<le> k \<and> k \<le> 122 then Some (k - 87)
      else if 65 \<le> k \<and> k \<le> 90 then Some (k - 55)
      else None)"

definition isRadixDigit :: "nat \<Rightarrow> char \<Rightarrow> bool" where
  "isRadixDigit R c = (case digitValue c of None \<Rightarrow> False | Some v \<Rightarrow> v < R)"

definition radixValue :: "nat \<Rightarrow> string \<Rightarrow> nat" where
  "radixValue R Z = foldl (\<lambda>acc c. acc * R + the (digitValue c)) 0 Z"

definition parseInt :: "string \<Rightarrow> int option" where
  "parseInt inputString =
     (let S = dropWhile isWhiteSpace inputString;
          sign = (if S \<noteq> [] \<and> hd S = CHR ''-'' then - 1 else 1 :: int);
          S1 = (if S \<noteq> [] \<and> (hd S = CHR ''+'' \<or> hd S = CHR ''-'') then tl S else S);
          hex = (take 2 S1 = ''0x'' \<or> take 2 S1 = ''0X'');
          R = (if hex then 16 else 10);
          S2 = (if hex then drop 2 S1 else S1);
          Z = takeWhile (isRadixDigit R) S2
      in if Z = [] then None else Some (sign * int (radixValue R Z)))"

text \<open>
  \<open>URLSearchParams\<close>: an ordered list of name/value pairs. \<open>get\<close> returns the first
  value of the name (or \<open>null\<close>); \<open>set\<close> overwrites the first pair of the name and
  removes the others, or appends a pair when the name is absent.
\<close>

type_synonym URLSearchParams = "(string \<times> string) list"

definition usp_get :: "URLSearchParams \<Rightarrow> string \<Rightarrow> string option" where
  "usp_get ps k = map_of ps k"

fun usp_set :: "URLSearchParams \<Rightarrow> string \<Rightarrow> string \<Rightarrow> URLSearchParams" where
  "usp_set [] k v = [(k, v)]"
| "usp_set ((k', v') # ps) k v =
     (if k' = k then (k, v) # filter (\<lambda>p. fst p \<noteq> k) ps else (k', v') # usp_set ps k v)"

section \<open>The search page: apps/frontend/app/(sidebar)/search/page.tsx\<close>

definition PAGE_SIZE :: int where
  "PAGE_SIZE = 6"

text \<open>Line 20: \<open>const query = searchParams.get("query") || ""\<close>\<close>

definition query :: "URLSearchParams \<Rightarrow> string" where
  "query searchParams = orElse (usp_get searchParams ''query'') ''''"

text \<open>Line 21: \<open>const offset = parseInt(searchParams.get("offset") || "0")\<close>\<close>

definition offset :: "URLSearchParams \<Rightarrow> int option" where
  "offset searchParams = parseInt (orElse (usp_get searchParams ''offset'') ''0'')"

text \<open>
  Lines 55-59, \<open>handlePageChange(page)\<close>: copies the current parameters, sets \<open>offset\<close>
  and pushes \<open>/search?<params>\<close>. The value is the parameter list of the pushed URL,
  which is what \<open>useSearchParams\<close> yields after the navigation.
\<close>

definition handlePageChange :: "URLSearchParams \<Rightarrow> int \<Rightarrow> URLSearchParams" where
  "handlePageChange searchParams page =
     usp_set searchParams ''offset'' (toString ((page - 1) * PAGE_SIZE))"

text \<open>
  Lines 83-84, the two derived properties handed to \<open>PaginationUi\<close>:
  \<open>Math.floor(offset / PAGE_SIZE) + 1\<close> and \<open>Math.ceil(data.total / PAGE_SIZE)\<close>;
  the division is the real one.
\<close>

definition currentPage :: "int \<Rightarrow> int" where
  "currentPage off = \<lfloor>real_of_int off / real_of_int PAGE_SIZE\<rfloor> + 1"

definition totalPages :: "int \<Rightarrow> int" where
  "totalPages tot = \<lceil>real_of_int tot / real_of_int PAGE_SIZE\<rceil>"

text \<open>
  \<open>PaginatedSearchResult\<close> (declared outside the two files): the fields the page reads,
  \<open>total\<close> (here \<open>totalCount\<close>) and \<open>results\<close>.
\<close>

record 'r PaginatedSearchResult =
  totalCount :: int
  results :: "'r list"

text \<open>
  Lines 81-87, \<open>{data && <PaginationUi currentPage=... totalPages=... />}\<close>: nothing is
  rendered without data; a \<open>NaN\<close> offset gives a \<open>NaN\<close> current page.
\<close>

record PaginationUiProps =
  propCurrentPage :: "int option"
  propTotalPages :: int

definition PaginationUi :: "URLSearchParams \<Rightarrow> 'r PaginatedSearchResult option \<Rightarrow> PaginationUiProps option" where
  "PaginationUi searchParams data =
     (case data of
        None \<Rightarrow> None
      | Some d \<Rightarrow> Some \<lparr> propCurrentPage = map_option currentPage (offset searchParams),
                         propTotalPages = totalPages (totalCount d) \<rparr>)"

text \<open>
  Lines 43-50, the callback of the debounce effect's timeout, with the \<open>searchQuery\<close> and
  \<open>query\<close> its closure captured: the parameters of the URL it pushes, or \<open>None\<close> when
  it pushes nothing.
\<close>

definition timerCallback :: "string \<Rightarrow> string \<Rightarrow> URLSearchParams option" where
  "timerCallback searchQuery q =
     (if searchQuery \<noteq> q
      then Some (usp_set (if searchQuery \<noteq> [] then usp_set [] ''query'' searchQuery else [])
                   ''offset'' ''0'')
      else None)"

text \<open>
  The component between events. \<open>timer\<close> is the one live timeout of the debounce
  effect: its due time in milliseconds and the \<open>searchQuery\<close> and \<open>query\<close> its callback
  closed over. \<open>now\<close> is the clock.
\<close>

record SearchContent =
  searchParams :: URLSearchParams
  searchQuery :: string
  timer :: "(nat \<times> string \<times> string) option"
  now :: nat

text \<open>
  Lines 42-53. The effect has the dependencies \<open>[searchQuery, query, router]\<close>, and the
  router object is stable: after a render in which \<open>searchQuery\<close> or \<open>query\<close> changed, the
  cleanup (\<open>clearTimeout\<close>) clears the previous timeout and the effect sets a new one
  (\<open>setTimeout(..., 500)\<close>), due in 500 ms. Otherwise the effect is left alone.
\<close>

definition afterRender :: "SearchContent \<Rightarrow> SearchContent \<Rightarrow> SearchContent" where
  "afterRender old new =
     (if searchQuery new \<noteq> searchQuery old \<or> query (searchParams new) \<noteq> query (searchParams old)
      then new\<lparr> timer := Some (now new + 500, searchQuery new, query (searchParams new)) \<rparr>
      else new)"

text \<open>
  Mounting with the URL's parameters: \<open>useState(query)\<close>, and the first run of the effect.
\<close>

definition mount :: "URLSearchParams \<Rightarrow> SearchContent" where
  "mount sp = \<lparr> searchParams = sp, searchQuery = query sp,
                timer = Some (500, query sp, query sp), now = 0 \<rparr>"

text \<open>
  What can happen to the mounted component: the input changes (\<open>onChange\<close>, line 74:
  \<open>setSearchQuery\<close>, which renders again only for a new value), time passes, the event
  loop runs the timeout's callback (only a due, uncleared timeout can run; it may run
  later than it is due), a page button is clicked (\<open>handlePageChange\<close>), or the URL
  changes from outside (history navigation). A \<open>router.push\<close> is taken to change the URL
  at once, and a render with its effects to follow its event at once.
\<close>

datatype event = Change string | Elapse nat | Fire | PageChange int | Navigate URLSearchParams

text \<open>One event: the next state, and the parameters of the URL pushed by the debounce
  callback, if it pushed one.\<close>

definition step :: "event \<Rightarrow> SearchContent \<Rightarrow> SearchContent \<times> URLSearchParams option" where
  "step ev st =
     (case ev of
        Change s \<Rightarrow> (afterRender st (st\<lparr> searchQuery := s \<rparr>), None)
      | Elapse d \<Rightarrow> (st\<lparr> now := now st + d \<rparr>, None)
      | Fire \<Rightarrow>
          (case timer st of
             None \<Rightarrow> (st, None)
           | Some (due, sq, q) \<Rightarrow>
               if due \<le> now st
               then (case timerCallback sq q of
                       None \<Rightarrow> (st\<lparr> timer := None \<rparr>, None)
                     | Some ps \<Rightarrow>
                         (afterRender st (st\<lparr> timer := None, searchParams := ps \<rparr>), Some ps))
               else (st, None))
      | PageChange page \<Rightarrow>
          (afterRender st (st\<lparr> searchParams := handlePageChange (searchParams st) page \<rparr>), None)
      | Navigate ps \<Rightarrow> (afterRender st (st\<lparr> searchParams := ps \<rparr>), None))"

fun exec :: "SearchContent \<Rightarrow> event list \<Rightarrow> SearchContent" where
  "exec st [] = st"
| "exec st (ev # evs) = exec (fst (step ev st)) evs"

text \<open>
  Lines 26-37, the query function of \<open>useQuery\<close>. \<open>fetch\<close> either rejects or resolves
  to a response; of the response the function reads \<open>ok\<close>, \<open>status\<close>, \<open>statusText\<close>,
  the body as text (\<open>errorText\<close>) and the body as JSON (which may reject). A thrown value
  is an \<open>Error\<close> with its message, or any other value with its \<open>String\<close> rendering.
\<close>

datatype thrown = ErrorInstance string | Thrown string

record 'r Response =
  ok :: bool
  status :: int
  statusText :: string
  errorText :: string
  json :: "thrown + 'r PaginatedSearchResult"

definition queryFn :: "thrown + 'r Response \<Rightarrow> thrown + 'r PaginatedSearchResult" where
  "queryFn fetched =
     (case fetched of
        Inl e \<Rightarrow> Inl e
      | Inr res \<Rightarrow>
          if \<not> ok res
          then Inl (ErrorInstance (''Failed to fetch: '' @ toString (status res) @ '' '' @
                      statusText res @ '' - '' @ errorText res))
          else json res)"

text \<open>
  What \<open>useQuery\<close> hands to the component once the query function has settled for good:
  \<open>error\<close> is the thrown value, \<open>data\<close> the result.
\<close>

record 'r QueryState =
  data :: "'r PaginatedSearchResult option"
  error :: "thrown option"
  isLoading :: bool

definition settled :: "thrown + 'r PaginatedSearchResult \<Rightarrow> 'r QueryState" where
  "settled r = (case r of
                  Inl e \<Rightarrow> \<lparr> data = None, error = Some e, isLoading = False \<rparr>
                | Inr d \<Rightarrow> \<lparr> data = Some d, error = None, isLoading = False \<rparr>)"

text \<open>\<open>error.message\<close>; a thrown value that is no \<open>Error\<close> has none, rendered as nothing.\<close>

definition message :: "thrown \<Rightarrow> string" where
  "message e = (case e of ErrorInstance m \<Rightarrow> m | Thrown _ \<Rightarrow> [])"

text \<open>Lines 61-89, what the component renders: the skeleton while loading, else the
  input, the error line, the cards and the pagination.\<close>

datatype 'r view =
    SearchSkeleton
  | SearchView string "string option" "'r list option" "PaginationUiProps option"

definition render :: "URLSearchParams \<Rightarrow> string \<Rightarrow> 'r QueryState \<Rightarrow> 'r view" where
  "render sp typed qs =
     (if isLoading qs then SearchSkeleton
      else SearchView typed
             (map_option (\<lambda>e. ''Error: '' @ message e) (error qs))
             (map_option results (data qs))
             (PaginationUi sp (data qs)))"

section \<open>The tool panel: \<open>ToolManagement\<close>\<close>

text \<open>
  \<open>MCPTool\<close>, the tool of the protocol. The schema's \<open>type\<close> is the constant
  \<open>"object"\<close>; \<open>'u\<close> stands for the \<open>unknown\<close> values of \<open>properties\<close>. The code guards
  against a missing \<open>inputSchema\<close>, so the field is optional here.
\<close>

record 'u InputSchema =
  properties :: "(string \<times> 'u) list option"
  required :: "string list option"

record 'u MCPTool =
  name :: string
  description :: "string option"
  inputSchema :: "'u InputSchema option"

record 'u ToolsListResponse =
  tools :: "'u MCPTool list option"

text \<open>An element of \<open>toolsToSave\<close>, the payload of the create mutation.\<close>

record 'u ToolToSave =
  name :: string
  description :: "string option"
  inputSchema :: "'u InputSchema"

text \<open>
  \<open>Tool\<close>, the stored tool (declared outside the two files): the panel reads its
  \<open>name\<close> only; the other fields are the record's extension.
\<close>

record Tool =
  name :: string

text \<open>The backend's answers to \<open>getByMcpServerUuid\<close> and to \<open>create\<close>.\<close>

record 't GetToolsResponse =
  success :: bool
  data :: "'t list"

record CreateToolsResponse =
  success :: bool
  error :: "string option"

text \<open>Line 61: \<open>const dbTools = dbToolsResponse?.success ? dbToolsResponse.data : []\<close>\<close>

definition dbTools :: "'t GetToolsResponse option \<Rightarrow> 't list" where
  "dbTools dbToolsResponse =
     (case dbToolsResponse of
        None \<Rightarrow> []
      | Some r \<Rightarrow> if GetToolsResponse.success r then GetToolsResponse.data r else [])"

text \<open>What the panel does to the outside: requests, mutations, toasts, the console and
  the query cache.\<close>

datatype 'u effect =
    MakeRequest string
  | Mutate string "'u ToolToSave list"
  | ToastSuccess string
  | ToastInfo string
  | ToastError string "string option"
  | ConsoleError string thrown
  | Invalidate string
  | RefetchDbTools
  | UnhandledRejection thrown

text \<open>The component's state: two \<open>useState\<close> cells and the \<open>useRef\<close> flag.\<close>

record 'u ToolManagement =
  mcpTools :: "'u MCPTool list"
  loading :: bool
  hasInitiallyFetched :: bool

definition initial :: "'u ToolManagement" where
  "initial = \<lparr> mcpTools = [], loading = False, hasInitiallyFetched = False \<rparr>"

text \<open>Lines 64-82, the callbacks of \<open>saveToolsMutation\<close>.\<close>

definition onSuccess :: "string \<Rightarrow> 'u ToolManagement \<Rightarrow> CreateToolsResponse \<Rightarrow> 'u effect list" where
  "onSuccess mcpServerUuid st response =
     (if CreateToolsResponse.success response
      then [ToastSuccess (''Found '' @ toString (int (length (mcpTools st))) @ '' tools from MCP server''),
            Invalidate mcpServerUuid, RefetchDbTools]
      else [ToastError (orElse (CreateToolsResponse.error response) ''Failed to save tools'') None])"

definition onError :: "string \<Rightarrow> 'u effect list" where
  "onError errorMessage =
     [ConsoleError ''Error saving tools:'' (ErrorInstance errorMessage),
      ToastError ''Failed to save tools'' (Some errorMessage)]"

text \<open>How \<open>makeRequest\<close> settles: it rejects with a thrown value, or resolves to a
  response, which the code allows to be absent (\<open>response?.tools\<close>).\<close>

datatype 'u outcome = Rejected thrown | Resolved "'u ToolsListResponse option"

definition optTools :: "'u ToolsListResponse option \<Rightarrow> 'u MCPTool list option" where
  "optTools response = (case response of None \<Rightarrow> None | Some r \<Rightarrow> tools r)"

text \<open>Lines 102-106, the body of \<open>response.tools.map\<close>.\<close>

definition toolToSave :: "'u MCPTool \<Rightarrow> 'u ToolToSave" where
  "toolToSave tool =
     \<lparr> ToolToSave.name = MCPTool.name tool,
       ToolToSave.description =
         (case MCPTool.description tool of None \<Rightarrow> None | Some d \<Rightarrow> if d = [] then None else Some d),
       ToolToSave.inputSchema =
         (case MCPTool.inputSchema tool of
            None \<Rightarrow> \<lparr> properties = None, required = None \<rparr>
          | Some sch \<Rightarrow> sch) \<rparr>"

text \<open>Line 122: \<open>error instanceof Error ? error.message : String(error)\<close>\<close>

definition errorDescription :: "thrown \<Rightarrow> string" where
  "errorDescription e = (case e of ErrorInstance m \<Rightarrow> m | Thrown s \<Rightarrow> s)"

text \<open>
  Lines 87-118, the \<open>try\<close> block of \<open>fetchMCPTools\<close>, from the settlement of the
  awaited request on: \<open>Inl\<close> is the value thrown out of the block.
\<close>

definition tryBlock ::
  "string \<Rightarrow> 'u outcome \<Rightarrow> 'u ToolManagement \<Rightarrow> thrown + ('u ToolManagement \<times> 'u effect list)" where
  "tryBlock mcpServerUuid settle st =
     (case settle of
        Rejected e \<Rightarrow> Inl e
      | Resolved response \<Rightarrow>
          (case optTools response of
             Some ts \<Rightarrow>
               if length ts > 0
               then Inr (st\<lparr> mcpTools := ts \<rparr>, [Mutate mcpServerUuid (map toolToSave ts)])
               else Inr (st\<lparr> mcpTools := ts \<rparr>, [ToastInfo ''No tools found on MCP server''])
           | None \<Rightarrow> Inr (st\<lparr> mcpTools := [] \<rparr>, [ToastInfo ''No tools found on MCP server''])))"

text \<open>
  Lines 85-128, \<open>fetchMCPTools\<close>, given how its one request settles: \<open>setLoading(true)\<close>,
  the \<open>try\<close> block, the \<open>catch\<close> block for whatever the \<open>try\<close> block threw, and
  \<open>finally\<close> \<open>setLoading(false)\<close>. \<open>Inl\<close> would be a rejection of the promise it
  returns, \<open>Inr\<close> is the state and the effects, in order.
\<close>

definition fetchMCPTools ::
  "string \<Rightarrow> 'u outcome \<Rightarrow> 'u ToolManagement \<Rightarrow> thrown + ('u ToolManagement \<times> 'u effect list)" where
  "fetchMCPTools mcpServerUuid settle st =
     (let st1 = st\<lparr> loading := True \<rparr>;
          (st2, effs) =
            (case tryBlock mcpServerUuid settle st1 of
               Inr r \<Rightarrow> r
             | Inl e \<Rightarrow>
                 (st1\<lparr> mcpTools := [] \<rparr>,
                  [ConsoleError ''Error fetching MCP tools:'' e,
                   ToastError ''Failed to fetch tools from MCP server'' (Some (errorDescription e))]))
      in Inr (st2\<lparr> loading := False \<rparr>, MakeRequest ''tools/list'' # effs))"

text \<open>Lines 131-136, the mount effect, with the settlement of the request it may start.\<close>

definition mountEffect ::
  "string \<Rightarrow> 'u outcome \<Rightarrow> 'u ToolManagement \<Rightarrow> thrown + ('u ToolManagement \<times> 'u effect list)" where
  "mountEffect mcpServerUuid settle st =
     (if \<not> hasInitiallyFetched st
      then fetchMCPTools mcpServerUuid settle (st\<lparr> hasInitiallyFetched := True \<rparr>)
      else Inr (st, []))"

text \<open>Lines 139-143, the counts of the header.\<close>

definition mcpToolCount :: "'u MCPTool list \<Rightarrow> nat" where
  "mcpToolCount ts = length ts"

definition dbToolCount :: "'z Tool_scheme list \<Rightarrow> nat" where
  "dbToolCount ds = length ds"

text \<open>
  \<open>mcpTools.filter((mcpTool) => !dbTools.some((dbTool) => dbTool.name === mcpTool.name))\<close>
  and its \<open>length\<close>.
\<close>

definition newTools :: "'u MCPTool list \<Rightarrow> 'z Tool_scheme list \<Rightarrow> 'u MCPTool list" where
  "newTools ts ds =
     filter (\<lambda>mcpTool. \<not> list_ex (\<lambda>dbTool. Tool.name dbTool = MCPTool.name mcpTool) ds) ts"

definition newToolsCount :: "'u MCPTool list \<Rightarrow> 'z Tool_scheme list \<Rightarrow> nat" where
  "newToolsCount ts ds = length (newTools ts ds)"

text \<open>
  The panel's life as a list of events: a run of the mount effect (on mount, and again
  whenever \<open>fetchMCPTools\<close> is a new function), or a click on the refresh button; each
  carries the settlement of the request, should one be made. Nothing awaits the promise
  of \<open>fetchMCPTools\<close>, so a rejection would be an unhandled one.
\<close>

datatype 'u panelEvent = EffectRun "'u outcome" | RefreshClick "'u outcome"

definition panelStep ::
  "string \<Rightarrow> 'u panelEvent \<Rightarrow> 'u ToolManagement \<Rightarrow> 'u ToolManagement \<times> 'u effect list" where
  "panelStep mcpServerUuid ev st =
     (case (case ev of
              EffectRun settle \<Rightarrow> mountEffect mcpServerUuid settle st
            | RefreshClick settle \<Rightarrow> fetchMCPTools mcpServerUuid settle st) of
        Inr r \<Rightarrow> r
      | Inl e \<Rightarrow> (st, [UnhandledRejection e]))"

fun panelRun ::
  "string \<Rightarrow> 'u panelEvent list \<Rightarrow> 'u ToolManagement \<Rightarrow> ('u panelEvent \<times> 'u effect list) list" where
  "panelRun mcpServerUuid [] st = []"
| "panelRun mcpServerUuid (ev # evs) st =
     (ev, snd (panelStep mcpServerUuid ev st)) # panelRun mcpServerUuid evs (fst (panelStep mcpServerUuid ev st))"

section \<open>Notions the properties are stated with\<close>

text \<open>
  The specification's notion of a new tool: present in the remote list, and no stored tool
  has its name.
\<close>

definition isNew :: "'u MCPTool list \<Rightarrow> 'z Tool_scheme list \<Rightarrow> 'u MCPTool \<Rightarrow> bool" where
  "isNew remote stored t = (t \<in> set remote \<and> MCPTool.name t \<notin> Tool.name ` set stored)"

text \<open>The tools handed to the create mutation by a list of effects.\<close>

fun savedTools :: "'u effect list \<Rightarrow> 'u ToolToSave list" where
  "savedTools [] = []"
| "savedTools (Mutate u payload # effs) = payload @ savedTools effs"
| "savedTools (_ # effs) = savedTools effs"

text \<open>An entry of a panel run in which the mount effect started the request.\<close>

fun isEffectRun :: "'u panelEvent \<Rightarrow> bool" where
  "isEffectRun (EffectRun _) = True"
| "isEffectRun (RefreshClick _) = False"

definition fetchedByMount :: "'u panelEvent \<times> 'u effect list \<Rightarrow> bool" where
  "fetchedByMount p = (isEffectRun (fst p) \<and> MakeRequest ''tools/list'' \<in> set (snd p))"

text \<open>Keeps the first \<open>True\<close> of a list and clears every later one.\<close>

fun firstOnly :: "bool list \<Rightarrow> bool list" where
  "firstOnly [] = []"
| "firstOnly (b # bs) = (if b then True # map (\<lambda>_. False) bs else False # firstOnly bs)"

text \<open>
  Two invariants of the search page: a live timeout closed over the current
  \<open>searchQuery\<close> and \<open>query\<close>; and no timeout now or later is due before \<open>c\<close>.
\<close>

definition timerCurrent :: "SearchContent \<Rightarrow> bool" where
  "timerCurrent st =
     (case timer st of
        None \<Rightarrow> True
      | Some (due, sq, q) \<Rightarrow> sq = searchQuery st \<and> q = query (searchParams st))"

definition dueNoEarlier :: "nat \<Rightarrow> SearchContent \<Rightarrow> bool" where
  "dueNoEarlier c st =
     (c \<le> now st + 500 \<and> (case timer st of None \<Rightarrow> True | Some (due, sq, q) \<Rightarrow> c \<le> due))"

section \<open>Decimal strings and URL parameters\<close>

lemma digitChar_decimal: "d < 10 \<Longrightarrow> digitChar d \<in> set ''0123456789''"
  unfolding digitChar_def by (rule nth_mem) simp

lemma digitValue_digitChar: "d < 10 \<Longrightarrow> digitValue (digitChar d) = Some d"
proof -
  assume "d < 10"
  then have "d \<in> {0, 1, 2, 3, 4, 5, 6, 7, 8, 9}" by auto
  then show ?thesis
    by (auto simp: digitChar_def digitValue_def)
qed

lemma decimal_isRadixDigit: "c \<in> set ''0123456789'' \<Longrightarrow> isRadixDigit 10 c"
  by (auto simp: isRadixDigit_def digitValue_def)

lemma decimal_plain:
  "c \<in> set ''0123456789'' \<Longrightarrow>
     \<not> isWhiteSpace c \<and> c \<noteq> CHR ''-'' \<and> c \<noteq> CHR ''+'' \<and> c \<noteq> CHR ''x'' \<and> c \<noteq> CHR ''X''"
  by (auto simp: isWhiteSpace_def)

lemma natToString_decimal: "set (natToString n) \<subseteq> set ''0123456789''"
proof (induction n rule: natToString.induct)
  case (1 n)
  show ?case
  proof (cases "n < 10")
    case True
    then show ?thesis using digitChar_decimal[of n] by (subst natToString.simps) simp
  next
    case False
    then show ?thesis using 1 digitChar_decimal[of "n mod 10"]
      by (subst natToString.simps) simp
  qed
qed

lemma natToString_nonempty: "natToString n \<noteq> []"
  by (subst natToString.simps) simp

lemma radixValue_snoc: "radixValue R (Z @ [c]) = radixValue R Z * R + the (digitValue c)"
  by (simp add: radixValue_def)

lemma radixValue_natToString: "radixValue 10 (natToString n) = n"
proof (induction n rule: natToString.induct)
  case (1 n)
  show ?case
  proof (cases "n < 10")
    case True
    then show ?thesis
      by (subst natToString.simps) (simp add: radixValue_def digitValue_digitChar)
  next
    case False
    then show ?thesis using 1
      by (subst natToString.simps) (simp add: radixValue_snoc digitValue_digitChar)
  qed
qed

lemma decimal_no_hex_prefix:
  assumes "set S \<subseteq> set ''0123456789''"
  shows "take 2 S \<noteq> ''0x'' \<and> take 2 S \<noteq> ''0X''"
proof -
  have "CHR ''x'' \<notin> set (take 2 S) \<and> CHR ''X'' \<notin> set (take 2 S)"
    using assms set_take_subset[of 2 S] decimal_plain by blast
  then show ?thesis by auto
qed

lemma parseInt_decimal:
  assumes "set S \<subseteq> set ''0123456789''" and "S \<noteq> []"
  shows "parseInt S = Some (int (radixValue 10 S))"
    and "parseInt (CHR ''-'' # S) = Some (- int (radixValue 10 S))"
proof -
  have h: "hd S \<in> set ''0123456789''" using assms by (cases S) auto
  have tw: "takeWhile (isRadixDigit 10) S = S"
    using assms(1) decimal_isRadixDigit by (intro takeWhile_eq_all_conv[THEN iffD2]) blast
  have dw: "dropWhile isWhiteSpace S = S"
    using h assms(2) decimal_plain[OF h] by (cases S) auto
  note t2 = decimal_no_hex_prefix[OF assms(1)]
  show "parseInt S = Some (int (radixValue 10 S))"
    using h decimal_plain[OF h] assms(2) t2
    by (simp add: parseInt_def Let_def tw dw del: takeWhile_eq_all_conv)
  show "parseInt (CHR ''-'' # S) = Some (- int (radixValue 10 S))"
    using assms(2) t2
    by (simp add: parseInt_def Let_def isWhiteSpace_def tw del: takeWhile_eq_all_conv)
qed

lemma parseInt_toString: "parseInt (toString n) = Some n"
  using parseInt_decimal[OF natToString_decimal natToString_nonempty]
  by (simp add: toString_def radixValue_natToString)


lemma toString_0: "toString 0 = ''0''"
  by (simp add: toString_def natToString.simps digitChar_def)



section \<open>The search page\<close>

lemma currentPage_div: "currentPage off = off div 6 + 1"
  unfolding currentPage_def PAGE_SIZE_def
  using floor_divide_of_int_eq[of off 6, where 'a = real] by simp

lemma totalPages_div: "totalPages tot = (tot + 5) div 6"
  unfolding totalPages_def PAGE_SIZE_def
  using ceiling_divide_eq_div[of tot 6, where 'a = real] by simp



lemma timerCallback_Some:
  "timerCallback sq q = Some ps \<Longrightarrow>
     sq \<noteq> q \<and> ps = (if sq = [] then [] else [(''query'', sq)]) @ [(''offset'', ''0'')]"
  by (auto simp: timerCallback_def split: if_splits)

lemma timerCurrent_mount: "timerCurrent (mount sp)"
  by (simp add: timerCurrent_def mount_def)

lemma timerCurrent_step: "timerCurrent st \<Longrightarrow> timerCurrent (fst (step ev st))"
  by (cases ev)
     (auto simp: timerCurrent_def step_def afterRender_def split: option.splits if_splits prod.splits)

lemma timerCurrent_exec: "timerCurrent st \<Longrightarrow> timerCurrent (exec st evs)"
  by (induction evs arbitrary: st) (auto intro: timerCurrent_step)

lemma dueNoEarlier_step: "dueNoEarlier c st \<Longrightarrow> dueNoEarlier c (fst (step ev st))"
  by (cases ev)
     (auto simp: dueNoEarlier_def step_def afterRender_def split: option.splits if_splits prod.splits)

lemma dueNoEarlier_exec: "dueNoEarlier c st \<Longrightarrow> dueNoEarlier c (exec st evs)"
  by (induction evs arbitrary: st) (auto intro: dueNoEarlier_step)

lemma dueNoEarlier_Change:
  "s \<noteq> searchQuery st \<Longrightarrow> dueNoEarlier (now st + 500) (fst (step (Change s) st))"
  by (simp add: dueNoEarlier_def step_def afterRender_def)

lemma Fire_pushes:
  assumes "step Fire st = (st', Some ps)"
  obtains due sq q where "timer st = Some (due, sq, q)" "due \<le> now st"
    "timerCallback sq q = Some ps" "searchParams st' = ps"
  using assms
  by (auto simp: step_def afterRender_def split: option.splits if_splits prod.splits)

text \<open>
  Claim C3. For every offset and every total count, the page hands \<open>PaginationUi\<close> the
  current page \<open>floor(offset / 6) + 1\<close> and the total pages \<open>ceil(total / 6)\<close>, the page
  size being the constant 6. On integers these are \<open>offset div 6 + 1\<close> and
  \<open>(total + 5) div 6\<close>.
\<close>

theorem pagination_derivation:
  "PAGE_SIZE = 6 \<and>
   currentPage off = \<lfloor>real_of_int off / 6\<rfloor> + 1 \<and>
   totalPages tot = \<lceil>real_of_int tot / 6\<rceil> \<and>
   currentPage off = off div 6 + 1 \<and>
   totalPages tot = (tot + 5) div 6 \<and>
   PaginationUi sp (Some d) =
     Some \<lparr> propCurrentPage = map_option (\<lambda>off. \<lfloor>real_of_int off / 6\<rfloor> + 1) (offset sp),
            propTotalPages = \<lceil>real_of_int (totalCount d) / 6\<rceil> \<rparr>"
proof -
  have "map_option currentPage (offset sp) = map_option (\<lambda>off. \<lfloor>real_of_int off / 6\<rfloor> + 1) (offset sp)"
    by (simp add: currentPage_def PAGE_SIZE_def fun_eq_iff cong: map_option_cong)
  then show ?thesis
    using currentPage_div[of off] totalPages_div[of tot]
    by (simp add: PaginationUi_def) (simp add: currentPage_def totalPages_def PAGE_SIZE_def)
qed

theorem pagination_derivation_witness:
  "currentPage 13 = 3 \<and> totalPages 13 = 3 \<and> currentPage 12 = 3 \<and> totalPages 12 = 2 \<and>
   PaginationUi [(''offset'', ''12'')] (Some \<lparr> totalCount = 13, results = [()] \<rparr>) =
     Some \<lparr> propCurrentPage = Some 3, propTotalPages = 3 \<rparr>"
proof -
  let ?sp = "[(''offset'', ''12'')]"
  let ?d = "\<lparr> totalCount = 13, results = [()] \<rparr>"
  have o: "offset ?sp = Some 12"
    by code_simp
  from pagination_derivation[of 13 13 ?sp ?d]
  have a: "currentPage 13 = 13 div 6 + 1" and b: "totalPages 13 = (13 + 5) div 6"
    and c: "PaginationUi ?sp (Some ?d) =
              Some \<lparr> propCurrentPage = map_option (\<lambda>off. \<lfloor>real_of_int off / 6\<rfloor> + 1) (offset ?sp),
                     propTotalPages = \<lceil>real_of_int (totalCount ?d) / 6\<rceil> \<rparr>"
    by blast+
  from pagination_derivation[of 12 12 ?sp ?d]
  have a': "currentPage 12 = 12 div 6 + 1" and b': "totalPages 12 = (12 + 5) div 6"
    by blast+
  from a b a' b' c show ?thesis
    unfolding o by simp
qed



text \<open>
  Claim C7. Take any run of the mounted page in which the input changes to \<open>s\<close> (in state
  \<open>st\<^sub>j\<close>) and, after any further events \<open>mid\<close>, the timeout's callback pushes a URL (in
  state \<open>st\<^sub>k\<close>). Then at least 500 ms lie between the change and the push; as this holds
  for every change before the push, the input did not change during the 500 ms before it,
  and a navigation pending for a superseded input has not fired. The push happens only
  when the typed text differs from the URL's query, and it is the push for the text typed
  last.
\<close>

theorem debounced_navigation:
  assumes j: "st_j = exec (mount sp) pre"
      and s: "s \<noteq> searchQuery st_j"
      and k: "st_k = exec st_j (Change s # mid)"
      and f: "step Fire st_k = (st', Some ps)"
  shows "now st_j + 500 \<le> now st_k \<and>
         searchQuery st_k \<noteq> query (searchParams st_k) \<and>
         timerCallback (searchQuery st_k) (query (searchParams st_k)) = Some ps \<and>
         query ps = searchQuery st_k"
proof -
  from f obtain due sq q where t: "timer st_k = Some (due, sq, q)" "due \<le> now st_k"
    and cb: "timerCallback sq q = Some ps"
    by (rule Fire_pushes)
  have "dueNoEarlier (now st_j + 500) st_k"
    using dueNoEarlier_exec[OF dueNoEarlier_Change[OF s], of mid] k by simp
  with t have late: "now st_j + 500 \<le> now st_k"
    by (simp add: dueNoEarlier_def)
  have "timerCurrent st_k"
    using timerCurrent_exec[OF timerCurrent_exec[OF timerCurrent_mount]] j k by blast
  with t have cur: "sq = searchQuery st_k" "q = query (searchParams st_k)"
    by (simp_all add: timerCurrent_def)
  have "query ps = sq"
    using timerCallback_Some[OF cb] by (auto simp: query_def usp_get_def orElse_def)
  with timerCallback_Some[OF cb] cur cb late show ?thesis by simp
qed

theorem debounced_navigation_witness:
  "now (exec (mount []) [Change ''a'', Elapse 200]) + 500
     \<le> now (exec (mount []) [Change ''a'', Elapse 200, Change ''ab'', Elapse 500]) \<and>
   snd (step Fire (exec (mount []) [Change ''a'', Elapse 200, Change ''ab'', Elapse 500])) =
     Some [(''query'', ''ab''), (''offset'', ''0'')] \<and>
   snd (step Fire (exec (mount []) [Change ''a'', Elapse 200, Change ''ab'', Elapse 499])) = None"
proof -
  let ?j = "exec (mount []) [Change ''a'', Elapse 200]"
  let ?k = "exec (mount []) [Change ''a'', Elapse 200, Change ''ab'', Elapse 500]"
  have ej: "?j = \<lparr> searchParams = [], searchQuery = ''a'', timer = Some (500, ''a'', ''''), now = 200 \<rparr>"
    by (simp add: mount_def step_def afterRender_def query_def usp_get_def orElse_def)
  have ek: "?k = \<lparr> searchParams = [], searchQuery = ''ab'', timer = Some (700, ''ab'', ''''), now = 700 \<rparr>"
    by (simp add: mount_def step_def afterRender_def query_def usp_get_def orElse_def)
  have f: "step Fire ?k =
             (\<lparr> searchParams = [(''query'', ''ab''), (''offset'', ''0'')], searchQuery = ''ab'',
                timer = Some (1200, ''ab'', ''ab''), now = 700 \<rparr>,
              Some [(''query'', ''ab''), (''offset'', ''0'')])"
    unfolding ek
    by (simp add: step_def afterRender_def timerCallback_def query_def usp_get_def orElse_def)
  have early: "snd (step Fire (exec (mount []) [Change ''a'', Elapse 200, Change ''ab'', Elapse 499])) = None"
    by (simp add: mount_def step_def afterRender_def query_def usp_get_def orElse_def)
  have s: "''ab'' \<noteq> searchQuery ?j"
    unfolding ej by simp
  have k: "?k = exec ?j (Change ''ab'' # [Elapse 500])"
    by simp
  from debounced_navigation[OF refl s k f] have "now ?j + 500 \<le> now ?k"
    by blast
  with f early show ?thesis by simp
qed

text \<open>
  Claim C9. Whenever the debounce callback pushes a URL, in any state the mounted page can
  reach, the URL's parameters are \<open>query\<close> (only if the typed text is not empty) and
  \<open>offset = 0\<close>: the offset reads back as 0, so the search is on page 1.
\<close>

theorem query_change_resets_offset:
  assumes r: "st = exec (mount sp) evs"
      and f: "step Fire st = (st', Some ps)"
  shows "ps = (if searchQuery st = [] then [] else [(''query'', searchQuery st)]) @ [(''offset'', ''0'')] \<and>
         usp_get ps ''offset'' = Some ''0'' \<and>
         usp_get ps ''query'' = (if searchQuery st = [] then None else Some (searchQuery st)) \<and>
         offset ps = Some 0 \<and>
         map_option currentPage (offset ps) = Some 1 \<and>
         searchParams st' = ps"
proof -
  from f obtain due sq q where t: "timer st = Some (due, sq, q)"
    and cb: "timerCallback sq q = Some ps" and sp: "searchParams st' = ps"
    by (rule Fire_pushes)
  have "timerCurrent st"
    using timerCurrent_exec[OF timerCurrent_mount] r by simp
  with t have cur: "sq = searchQuery st"
    by (simp add: timerCurrent_def)
  have ps: "ps = (if sq = [] then [] else [(''query'', sq)]) @ [(''offset'', ''0'')]"
    using timerCallback_Some[OF cb] by simp
  have g: "usp_get ps ''offset'' = Some ''0''" "usp_get ps ''query'' = (if sq = [] then None else Some sq)"
    using ps by (simp_all add: usp_get_def)
  have off: "offset ps = Some 0"
    using g(1) parseInt_toString[of 0] by (simp add: offset_def orElse_def toString_0)
  show ?thesis
    using ps g off sp cur by (simp add: currentPage_div)
qed

theorem query_change_resets_offset_witness:
  "snd (step Fire (exec (mount [(''query'', ''db''), (''offset'', ''12'')]) [Change '''', Elapse 500])) =
     Some [(''offset'', ''0'')] \<and>
   offset [(''offset'', ''0'')] = Some 0 \<and>
   usp_get [(''offset'', ''0'')] ''query'' = None \<and>
   map_option currentPage (offset [(''offset'', ''0'')]) = Some 1"
proof -
  let ?st = "exec (mount [(''query'', ''db''), (''offset'', ''12'')]) [Change '''', Elapse 500]"
  have ev: "?st = \<lparr> searchParams = [(''query'', ''db''), (''offset'', ''12'')], searchQuery = '''',
                     timer = Some (500, '''', ''db''), now = 500 \<rparr>"
    by (simp add: mount_def step_def afterRender_def query_def usp_get_def orElse_def)
  have f: "step Fire ?st =
      (\<lparr> searchParams = [(''offset'', ''0'')], searchQuery = '''', timer = Some (1000, '''', ''''),
         now = 500 \<rparr>, Some [(''offset'', ''0'')])"
    unfolding ev
    by (simp add: step_def afterRender_def timerCallback_def query_def usp_get_def orElse_def)
  from query_change_resets_offset[OF refl f] f show ?thesis
    unfolding ev by (simp add: currentPage_div)
qed

section \<open>The tool panel\<close>

lemma absent_by_name:
  "(\<not> list_ex (\<lambda>dbTool. Tool.name dbTool = MCPTool.name t) ds) = (MCPTool.name t \<notin> Tool.name ` set ds)"
  by (auto simp: list_ex_iff image_def)

lemma set_newTools: "set (newTools ts ds) = {t. isNew ts ds t}"
  by (auto simp: newTools_def isNew_def absent_by_name)

lemma fetchMCPTools_Rejected:
  "fetchMCPTools uuid (Rejected e) st =
     Inr (st\<lparr> mcpTools := [], loading := False \<rparr>,
          [MakeRequest ''tools/list'',
           ConsoleError ''Error fetching MCP tools:'' e,
           ToastError ''Failed to fetch tools from MCP server'' (Some (errorDescription e))])"
  by (simp add: fetchMCPTools_def tryBlock_def)

lemma fetchMCPTools_Resolved:
  "fetchMCPTools uuid (Resolved r) st =
     Inr (st\<lparr> mcpTools := (case optTools r of None \<Rightarrow> [] | Some ts \<Rightarrow> ts), loading := False \<rparr>,
          MakeRequest ''tools/list'' #
          (case optTools r of
             None \<Rightarrow> [ToastInfo ''No tools found on MCP server'']
           | Some ts \<Rightarrow> if ts = [] then [ToastInfo ''No tools found on MCP server'']
                       else [Mutate uuid (map toolToSave ts)]))"
  by (simp add: fetchMCPTools_def tryBlock_def split: option.splits)

lemma fetchMCPTools_returns: "\<exists>st' effs. fetchMCPTools uuid settle st = Inr (st', effs)"
  by (cases settle) (auto simp: fetchMCPTools_Rejected fetchMCPTools_Resolved)

lemma fetchMCPTools_flag:
  "fetchMCPTools uuid settle st = Inr (st', effs) \<Longrightarrow>
     hasInitiallyFetched st' = hasInitiallyFetched st \<and> MakeRequest ''tools/list'' \<in> set effs"
  by (cases settle) (auto simp: fetchMCPTools_Rejected fetchMCPTools_Resolved)

lemma panelStep_RefreshClick:
  "hasInitiallyFetched (fst (panelStep uuid (RefreshClick settle) st)) = hasInitiallyFetched st"
  using fetchMCPTools_returns[of uuid settle st] fetchMCPTools_flag[of uuid settle st]
  by (auto simp: panelStep_def)

lemma panelStep_EffectRun_first:
  "\<not> hasInitiallyFetched st \<Longrightarrow>
     hasInitiallyFetched (fst (panelStep uuid (EffectRun settle) st)) \<and>
     MakeRequest ''tools/list'' \<in> set (snd (panelStep uuid (EffectRun settle) st))"
  using fetchMCPTools_returns[of uuid settle "st\<lparr> hasInitiallyFetched := True \<rparr>"]
        fetchMCPTools_flag[of uuid settle "st\<lparr> hasInitiallyFetched := True \<rparr>"]
  by (auto simp: panelStep_def mountEffect_def)

lemma panelStep_EffectRun_later:
  "hasInitiallyFetched st \<Longrightarrow> panelStep uuid (EffectRun settle) st = (st, [])"
  by (simp add: panelStep_def mountEffect_def)

lemma no_fetch_once_flagged:
  "hasInitiallyFetched st \<Longrightarrow> map fetchedByMount (panelRun uuid evs st) = map (\<lambda>_. False) evs"
proof (induction evs arbitrary: st)
  case Nil
  then show ?case by simp
next
  case (Cons ev evs)
  show ?case
  proof (cases ev)
    case (EffectRun settle)
    with Cons show ?thesis by (simp add: panelStep_EffectRun_later fetchedByMount_def)
  next
    case (RefreshClick settle)
    with Cons show ?thesis by (simp add: panelStep_RefreshClick fetchedByMount_def)
  qed
qed

lemma first_fetch_only:
  "\<not> hasInitiallyFetched st \<Longrightarrow>
     map fetchedByMount (panelRun uuid evs st) = firstOnly (map isEffectRun evs)"
proof (induction evs arbitrary: st)
  case Nil
  then show ?case by simp
next
  case (Cons ev evs)
  show ?case
  proof (cases ev)
    case (EffectRun settle)
    from Cons.prems have f: "hasInitiallyFetched (fst (panelStep uuid (EffectRun settle) st))"
      and r: "MakeRequest ''tools/list'' \<in> set (snd (panelStep uuid (EffectRun settle) st))"
      using panelStep_EffectRun_first[of st uuid settle] by simp_all
    have "fetchedByMount (EffectRun settle, snd (panelStep uuid (EffectRun settle) st))"
      using r by (simp add: fetchedByMount_def)
    with EffectRun no_fetch_once_flagged[OF f, of uuid evs] show ?thesis
      by (simp add: comp_def)
  next
    case (RefreshClick settle)
    with Cons show ?thesis by (simp add: panelStep_RefreshClick fetchedByMount_def)
  qed
qed

lemma firstOnly_at_most_one: "length (filter id (firstOnly bs)) \<le> 1"
  by (induction bs) auto

text \<open>
  Claim C1, as amended. For every remote response that carries a tool list,
  \<open>fetchMCPTools\<close> hands the create mutation every tool of the response, in order, each
  with its name, whatever tools are stored; the new tools are among them. (With an empty
  list nothing is handed over.)
\<close>

theorem saves_every_remote_tool:
  "\<exists>st' effs. fetchMCPTools uuid (Resolved (Some \<lparr> tools = Some ts \<rparr>)) st = Inr (st', effs) \<and>
     effs = MakeRequest ''tools/list'' #
            (if ts = [] then [ToastInfo ''No tools found on MCP server'']
             else [Mutate uuid (map toolToSave ts)]) \<and>
     savedTools effs = map toolToSave ts \<and>
     map ToolToSave.name (savedTools effs) = map MCPTool.name ts \<and>
     set (map MCPTool.name (newTools ts ds)) \<subseteq> set (map ToolToSave.name (savedTools effs))"
proof -
  have n: "map ToolToSave.name (map toolToSave ts) = map MCPTool.name ts"
    by (simp add: toolToSave_def comp_def)
  have sub: "set (map MCPTool.name (newTools ts ds)) \<subseteq> set (map MCPTool.name ts)"
    by (auto simp: newTools_def)
  have "savedTools (MakeRequest ''tools/list'' #
          (if ts = [] then [ToastInfo ''No tools found on MCP server'']
           else [Mutate uuid (map toolToSave ts)])) = map toolToSave ts"
    by simp
  then have "fetchMCPTools uuid (Resolved (Some \<lparr> tools = Some ts \<rparr>)) st =
               Inr (st\<lparr> mcpTools := ts, loading := False \<rparr>,
                    MakeRequest ''tools/list'' #
                    (if ts = [] then [ToastInfo ''No tools found on MCP server'']
                     else [Mutate uuid (map toolToSave ts)])) \<and>
             savedTools (MakeRequest ''tools/list'' #
                    (if ts = [] then [ToastInfo ''No tools found on MCP server'']
                     else [Mutate uuid (map toolToSave ts)])) = map toolToSave ts"
    by (simp add: fetchMCPTools_Resolved optTools_def del: savedTools.simps)
  with n sub show ?thesis
    by metis
qed

theorem saves_every_remote_tool_witness:
  "fetchMCPTools ''srv''
     (Resolved (Some \<lparr> tools = Some
        [\<lparr> MCPTool.name = ''a'', MCPTool.description = Some ''first'', MCPTool.inputSchema = None \<rparr>,
         \<lparr> MCPTool.name = ''b'', MCPTool.description = Some '''', MCPTool.inputSchema = None \<rparr>] \<rparr>))
     (initial :: unit ToolManagement) =
   Inr (\<lparr> mcpTools =
           [\<lparr> MCPTool.name = ''a'', MCPTool.description = Some ''first'', MCPTool.inputSchema = None \<rparr>,
            \<lparr> MCPTool.name = ''b'', MCPTool.description = Some '''', MCPTool.inputSchema = None \<rparr>],
          loading = False, hasInitiallyFetched = False \<rparr>,
        [MakeRequest ''tools/list'',
         Mutate ''srv''
           [\<lparr> ToolToSave.name = ''a'', ToolToSave.description = Some ''first'',
              ToolToSave.inputSchema = \<lparr> properties = None, required = None \<rparr> \<rparr>,
            \<lparr> ToolToSave.name = ''b'', ToolToSave.description = None,
              ToolToSave.inputSchema = \<lparr> properties = None, required = None \<rparr> \<rparr>]])"
proof -
  let ?ts = "[\<lparr> MCPTool.name = ''a'', MCPTool.description = Some ''first'', MCPTool.inputSchema = None \<rparr>,
              \<lparr> MCPTool.name = ''b'', MCPTool.description = Some '''', MCPTool.inputSchema = None \<rparr>]
             :: unit MCPTool list"
  from saves_every_remote_tool[of "''srv''" ?ts initial "[] :: Tool list"]
  obtain st' effs where r: "fetchMCPTools ''srv'' (Resolved (Some \<lparr> tools = Some ?ts \<rparr>)) initial = Inr (st', effs)"
    and s: "savedTools effs = map toolToSave ?ts"
    by blast
  from r have "st' = \<lparr> mcpTools = ?ts, loading = False, hasInitiallyFetched = False \<rparr>"
    and "effs = [MakeRequest ''tools/list'', Mutate ''srv'' (map toolToSave ?ts)]"
    by (simp_all add: fetchMCPTools_Resolved optTools_def initial_def)
  with r s show ?thesis
    by (simp add: toolToSave_def)
qed

text \<open>
  Handing over exactly the new tools is not what the code does: with the remote tool \<open>a\<close>
  already stored there is no new tool, and \<open>a\<close> is handed to the create mutation all the
  same.
\<close>

theorem saves_only_new_tools_counterexample:
  "newTools [\<lparr> MCPTool.name = ''a'', MCPTool.description = None, MCPTool.inputSchema = None \<rparr> :: unit MCPTool]
            [\<lparr> Tool.name = ''a'' \<rparr>] = [] \<and>
   fetchMCPTools ''srv''
     (Resolved (Some \<lparr> tools = Some
        [\<lparr> MCPTool.name = ''a'', MCPTool.description = None, MCPTool.inputSchema = None \<rparr>] \<rparr>))
     (initial :: unit ToolManagement) =
   Inr (\<lparr> mcpTools = [\<lparr> MCPTool.name = ''a'', MCPTool.description = None, MCPTool.inputSchema = None \<rparr>],
          loading = False, hasInitiallyFetched = False \<rparr>,
        [MakeRequest ''tools/list'',
         Mutate ''srv'' [\<lparr> ToolToSave.name = ''a'', ToolToSave.description = None,
                          ToolToSave.inputSchema = \<lparr> properties = None, required = None \<rparr> \<rparr>]]) \<and>
   map ToolToSave.name
     (savedTools [MakeRequest ''tools/list'',
        Mutate ''srv'' [\<lparr> ToolToSave.name = ''a'', ToolToSave.description = None,
                         ToolToSave.inputSchema = \<lparr> properties = None, required = None \<rparr> \<rparr> :: unit ToolToSave]])
     \<noteq> map MCPTool.name
         (newTools [\<lparr> MCPTool.name = ''a'', MCPTool.description = None, MCPTool.inputSchema = None \<rparr> :: unit MCPTool]
                   [\<lparr> Tool.name = ''a'' \<rparr>])"
  by (simp add: newTools_def fetchMCPTools_Resolved optTools_def toolToSave_def initial_def)

text \<open>
  Claim C2. For every remote list and every stored list, \<open>newToolsCount\<close> is the number of
  entries of the remote list whose name is the name of no stored tool; the tools counted
  are exactly the new ones: in the remote list, absent by name from the stored list.
\<close>

theorem newToolsCount_counts_new:
  "newToolsCount ts ds = length (filter (\<lambda>t. MCPTool.name t \<notin> set (map Tool.name ds)) ts) \<and>
   newToolsCount ts ds = card {i. i < length ts \<and> isNew ts ds (ts ! i)} \<and>
   set (newTools ts ds) = {t. isNew ts ds t}"
proof -
  have "{i. i < length ts \<and> isNew ts ds (ts ! i)} =
        {i. i < length ts \<and> \<not> list_ex (\<lambda>dbTool. Tool.name dbTool = MCPTool.name (ts ! i)) ds}"
    by (auto simp: isNew_def absent_by_name)
  then have "newToolsCount ts ds = card {i. i < length ts \<and> isNew ts ds (ts ! i)}"
    by (simp add: newToolsCount_def newTools_def length_filter_conv_card)
  moreover have "newToolsCount ts ds = length (filter (\<lambda>t. MCPTool.name t \<notin> set (map Tool.name ds)) ts)"
    by (simp add: newToolsCount_def newTools_def absent_by_name)
  ultimately show ?thesis
    using set_newTools[of ts ds] by blast
qed

theorem newToolsCount_counts_new_witness:
  "newToolsCount
     [\<lparr> MCPTool.name = ''a'', MCPTool.description = None, MCPTool.inputSchema = None \<rparr>,
      \<lparr> MCPTool.name = ''b'', MCPTool.description = None, MCPTool.inputSchema = None \<rparr>,
      \<lparr> MCPTool.name = ''c'', MCPTool.description = None, MCPTool.inputSchema = None \<rparr> :: unit MCPTool]
     [\<lparr> Tool.name = ''b'' \<rparr>, \<lparr> Tool.name = ''z'' \<rparr>] = 2"
proof -
  let ?ts = "[\<lparr> MCPTool.name = ''a'', MCPTool.description = None, MCPTool.inputSchema = None \<rparr>,
              \<lparr> MCPTool.name = ''b'', MCPTool.description = None, MCPTool.inputSchema = None \<rparr>,
              \<lparr> MCPTool.name = ''c'', MCPTool.description = None, MCPTool.inputSchema = None \<rparr>]
             :: unit MCPTool list"
  let ?ds = "[\<lparr> Tool.name = ''b'' \<rparr>, \<lparr> Tool.name = ''z'' \<rparr>]"
  from newToolsCount_counts_new[of ?ts ?ds]
  have "newToolsCount ?ts ?ds = length (filter (\<lambda>t. MCPTool.name t \<notin> set (map Tool.name ?ds)) ?ts)"
    by blast
  then show ?thesis by simp
qed

text \<open>
  Claim C5. When the request is rejected, with whatever value, \<open>fetchMCPTools\<close> still
  returns normally; it has made the one request, logged the error, raised the error toast
  with the error's description, and left the remote tool list empty and \<open>loading\<close> off.
  No mutation is started.
\<close>

theorem fetch_failure_handled:
  "\<exists>st' effs. fetchMCPTools uuid (Rejected e) st = Inr (st', effs) \<and>
     mcpTools st' = [] \<and> loading st' = False \<and>
     hasInitiallyFetched st' = hasInitiallyFetched st \<and>
     effs = [MakeRequest ''tools/list'',
             ConsoleError ''Error fetching MCP tools:'' e,
             ToastError ''Failed to fetch tools from MCP server'' (Some (errorDescription e))] \<and>
     length (filter (\<lambda>eff. eff = MakeRequest ''tools/list'') effs) = 1 \<and>
     savedTools effs = []"
  by (simp add: fetchMCPTools_Rejected)

theorem fetch_failure_handled_witness:
  "fetchMCPTools ''srv'' (Rejected (ErrorInstance ''timeout''))
     \<lparr> mcpTools = [\<lparr> MCPTool.name = ''a'', MCPTool.description = None, MCPTool.inputSchema = None \<rparr> :: unit MCPTool],
       loading = False, hasInitiallyFetched = True \<rparr> =
   Inr (\<lparr> mcpTools = [], loading = False, hasInitiallyFetched = True \<rparr>,
        [MakeRequest ''tools/list'',
         ConsoleError ''Error fetching MCP tools:'' (ErrorInstance ''timeout''),
         ToastError ''Failed to fetch tools from MCP server'' (Some ''timeout'')])"
proof -
  let ?st = "\<lparr> mcpTools = [\<lparr> MCPTool.name = ''a'', MCPTool.description = None, MCPTool.inputSchema = None \<rparr> :: unit MCPTool],
               loading = False, hasInitiallyFetched = True \<rparr>"
  from fetch_failure_handled[of "''srv''" "ErrorInstance ''timeout''" ?st]
  obtain st' effs where r: "fetchMCPTools ''srv'' (Rejected (ErrorInstance ''timeout'')) ?st = Inr (st', effs)"
    and m: "mcpTools st' = []" "loading st' = False" "hasInitiallyFetched st' = hasInitiallyFetched ?st"
    and e: "effs = [MakeRequest ''tools/list'',
             ConsoleError ''Error fetching MCP tools:'' (ErrorInstance ''timeout''),
             ToastError ''Failed to fetch tools from MCP server'' (Some (errorDescription (ErrorInstance ''timeout'')))]"
    by blast
  from m have "st' = \<lparr> mcpTools = [], loading = False, hasInitiallyFetched = True \<rparr>"
    by (cases st') simp
  with r e show ?thesis
    by (simp add: errorDescription_def)
qed

text \<open>
  Claim C6. In every sequence of runs of the mount effect, interleaved with any clicks on
  the refresh button, the mount effect starts the request in its first run and in no later
  one: at most once for the component instance.
\<close>

theorem mount_fetches_once:
  "map fetchedByMount (panelRun uuid evs initial) = firstOnly (map isEffectRun evs) \<and>
   length (filter fetchedByMount (panelRun uuid evs initial)) \<le> 1"
proof -
  have m: "map fetchedByMount (panelRun uuid evs initial) = firstOnly (map isEffectRun evs)"
    by (rule first_fetch_only) (simp add: initial_def)
  have "length (filter fetchedByMount (panelRun uuid evs initial)) =
        length (filter id (map fetchedByMount (panelRun uuid evs initial)))"
    by (simp add: filter_map comp_def)
  with m firstOnly_at_most_one[of "map isEffectRun evs"] show ?thesis by simp
qed

theorem mount_fetches_once_witness:
  "map fetchedByMount
     (panelRun ''srv''
        [RefreshClick (Rejected (Thrown ''x'')), EffectRun (Resolved None), EffectRun (Resolved None),
         RefreshClick (Resolved None), EffectRun (Rejected (Thrown ''y''))]
        (initial :: unit ToolManagement)) =
   [False, True, False, False, False]"
  using mount_fetches_once[of "''srv''"
          "[RefreshClick (Rejected (Thrown ''x'')), EffectRun (Resolved None), EffectRun (Resolved None),
            RefreshClick (Resolved None), EffectRun (Rejected (Thrown ''y''))] :: unit panelEvent list"]
  by simp



section \<open>Error reports of both components\<close>

text \<open>
  Claim C8. For every answer of the create mutation whose \<open>success\<close> is false, the toast
  shows the answer's error text, or \<open>Failed to save tools\<close> when there is none (or an
  empty one). For every search response that is not \<open>ok\<close>, the query function throws an
  error whose message holds the status, the status text and the body text, and the page
  shows that message.
\<close>

theorem backend_errors_surfaced:
  "(\<not> CreateToolsResponse.success response \<longrightarrow>
      onSuccess uuid st response =
        [ToastError (case CreateToolsResponse.error response of
                       None \<Rightarrow> ''Failed to save tools''
                     | Some m \<Rightarrow> if m = [] then ''Failed to save tools'' else m) None]) \<and>
   (\<not> ok res \<longrightarrow>
      queryFn (Inr res) =
        Inl (ErrorInstance (''Failed to fetch: '' @ toString (status res) @ '' '' @ statusText res @
                            '' - '' @ errorText res)) \<and>
      render sp typed (settled (queryFn (Inr res))) =
        SearchView typed
          (Some (''Error: Failed to fetch: '' @ toString (status res) @ '' '' @ statusText res @
                 '' - '' @ errorText res)) None None)"
  by (simp add: onSuccess_def orElse_def queryFn_def render_def settled_def message_def PaginationUi_def
           split: option.splits)

theorem backend_errors_surfaced_witness:
  "onSuccess ''srv'' (initial :: unit ToolManagement)
     \<lparr> CreateToolsResponse.success = False, CreateToolsResponse.error = Some ''duplicate tool'' \<rparr> =
     [ToastError ''duplicate tool'' None] \<and>
   queryFn (Inr \<lparr> ok = False, status = 503, statusText = ''Service Unavailable'', errorText = ''down'',
                   json = Inl (Thrown ''unused'') \<rparr>) =
     (Inl (ErrorInstance ''Failed to fetch: 503 Service Unavailable - down'')
        :: thrown + unit PaginatedSearchResult)"
proof -
  let ?response = "\<lparr> CreateToolsResponse.success = False, CreateToolsResponse.error = Some ''duplicate tool'' \<rparr>"
  let ?res = "\<lparr> ok = False, status = 503, statusText = ''Service Unavailable'', errorText = ''down'',
                json = Inl (Thrown ''unused'') \<rparr> :: unit Response"
  have n: "toString 503 = ''503''"
    by code_simp
  from backend_errors_surfaced[of ?response "''srv''" "initial :: unit ToolManagement" ?res "[]" "[]"]
  show ?thesis
    by (simp add: n)
qed

end
